theory Spec2Isabelle
  imports Complex_Main
begin

section \<open>Data model (types.ts)\<close>

text \<open>
  JavaScript numbers are modelled as reals: the coordinates are pixel positions and their
  quotients by a positive display scale, so the non-finite doubles never arise on the inputs
  the theorems below speak about (each theorem says which inputs those are). The model's
  arithmetic is exact where the code rounds each operation to a double, so a quotient can
  differ from the code's in its last digit. That matters only where a computed coordinate
  meets a constant at the very threshold; the size test of pointer-up is therefore also
  stated on the rectangle the handler reads from its state, and the concrete drags below
  use a scale of one half, by which doubles divide exactly.
  A string that may be \<open>null\<close> is a \<open>string option\<close>.
\<close>

datatype Tool = Select | Rect | Text

datatype AnnotationColor = Red | Yellow | Cyan

record Point =
  x :: real
  y :: real

text \<open>
  \<open>Partial<Annotation>\<close> as the editor uses it for the rectangle being drawn: the four
  geometry fields. An \<open>Annotation\<close> extends it with identifier, note and colour.
\<close>

record Box = Point +
  width :: real
  height :: real

record Annotation = Box +
  ann_id :: string
  ann_text :: string
  color :: AnnotationColor

datatype DragMode = Move | ResizeSE

section \<open>Editor state (Editor.tsx)\<close>

text \<open>
  The hooks of the \<open>Editor\<close> component and the \<open>annotations\<close> property it receives from
  \<open>App\<close>, as one record. An event handler reads the state of the render it was created in
  and schedules updates; with one render between two events this is a function from the
  state before the event to the state after it.
\<close>

record Editor =
  annotations :: "Annotation list"
  tool :: Tool
  selectedId :: "string option"
  activeColor :: AnnotationColor
  history :: "Annotation list list"
  historyIndex :: nat
  isDrawing :: bool
  startPoint :: "Point option"
  currentRect :: "Box option"
  dragMode :: "DragMode option"
  dragOffset :: "Point option"

text \<open>The state a freshly mounted editor starts in (the \<open>useState\<close> initial values).\<close>

definition initialEditor :: "Annotation list \<Rightarrow> Editor" where
  "initialEditor anns =
     \<lparr>annotations = anns, tool = Rect, selectedId = None, activeColor = Red,
      history = [[]], historyIndex = 0, isDrawing = False, startPoint = None,
      currentRect = None, dragMode = None, dragOffset = None\<rparr>"

text \<open>JavaScript truthiness of a \<open>string | null\<close>: neither \<open>null\<close> nor the empty string.\<close>

fun truthy :: "string option \<Rightarrow> bool" where
  "truthy None = False"
| "truthy (Some s) = (s \<noteq> [])"

subsection \<open>History\<close>

text \<open>
  \<open>history.slice(0, historyIndex + 1)\<close> is \<open>take\<close>; \<open>push\<close> appends; the new index is
  \<open>newHistory.length - 1\<close>.
\<close>

definition updateAnnotationsWithHistory :: "Annotation list \<Rightarrow> Editor \<Rightarrow> Editor" where
  "updateAnnotationsWithHistory newAnnotations s =
     (let newHistory = take (historyIndex s + 1) (history s) @ [newAnnotations]
      in s\<lparr>history := newHistory,
           historyIndex := length newHistory - 1,
           annotations := newAnnotations\<rparr>)"

text \<open>
  Reading an array at an index: \<open>undefined\<close> out of range. \<open>undo\<close> stores what it reads as
  the annotation list; with \<open>undefined\<close> there the next render fails on
  \<open>annotations.map\<close>, which is the result \<open>None\<close> of \<open>undo\<close>.
\<close>

definition js_index :: "'a list \<Rightarrow> nat \<Rightarrow> 'a option" where
  "js_index xs i = (if i < length xs then Some (xs ! i) else None)"

definition undo :: "Editor \<Rightarrow> Editor option" where
  "undo s =
     (if historyIndex s > 0 then
        (case js_index (history s) (historyIndex s - 1) of
           None \<Rightarrow> None
         | Some snapshot \<Rightarrow>
             Some (s\<lparr>historyIndex := historyIndex s - 1,
                      annotations := snapshot,
                      selectedId := None\<rparr>))
      else Some s)"

text \<open>
  The guard \<open>historyIndex < history.length - 1\<close> is over the integers (an empty history
  gives \<open>-1\<close>); over the naturals it is \<open>historyIndex + 1 < length history\<close>, and under it
  the read \<open>history[historyIndex + 1]\<close> is in range.
\<close>

definition redo :: "Editor \<Rightarrow> Editor" where
  "redo s =
     (if historyIndex s + 1 < length (history s) then
        s\<lparr>historyIndex := historyIndex s + 1,
          annotations := history s ! (historyIndex s + 1),
          selectedId := None\<rparr>
      else s)"

text \<open>
  The cursor is a position of the history and the annotation list on display is the snapshot
  stored there.
\<close>

definition cursor_shows :: "Editor \<Rightarrow> bool" where
  "cursor_shows s =
     (historyIndex s < length (history s) \<and> js_index (history s) (historyIndex s) = Some (annotations s))"

subsection \<open>Pointer events\<close>

text \<open>
  What a pointer handler reads from the event and the page: the client position, the
  container's bounding rectangle, whether both element references are set, and the displayed
  and natural width of the image.
\<close>

record Pointer =
  clientX :: real
  clientY :: real
  rectLeft :: real
  rectTop :: real
  refs :: bool
  imgWidth :: real
  imgNaturalWidth :: real

definition getRelativePointerPosition :: "Pointer \<Rightarrow> Point" where
  "getRelativePointerPosition e = \<lparr>x = clientX e - rectLeft e, y = clientY e - rectTop e\<rparr>"

definition getScale :: "Pointer \<Rightarrow> real" where
  "getScale e = (if \<not> refs e then 1 else imgWidth e / imgNaturalWidth e)"

text \<open>The pointer in image coordinates: \<open>imgX = x / scale\<close>, \<open>imgY = y / scale\<close>.\<close>

definition imgPoint :: "Pointer \<Rightarrow> Point" where
  "imgPoint e =
     (let scale = getScale e; p = getRelativePointerPosition e
      in \<lparr>x = x p / scale, y = y p / scale\<rparr>)"

text \<open>
  The events the geometric theorems speak about: the editor is mounted and the image is shown
  at a positive size, so the scale is a positive real.
\<close>

definition rendered :: "Pointer \<Rightarrow> bool" where
  "rendered e = (refs e \<and> 0 < imgWidth e \<and> 0 < imgNaturalWidth e)"

subsection \<open>Pointer handlers\<close>

text \<open>
  The first test of \<open>handleMouseDown\<close> under the select tool: an annotation is selected,
  it is found, and the pointer is within \<open>10 / scale\<close> of its bottom-right corner on both
  axes.
\<close>

definition hitsResizeHandle :: "Pointer \<Rightarrow> Editor \<Rightarrow> bool" where
  "hitsResizeHandle e s =
     (truthy (selectedId s) \<and>
      (case find (\<lambda>a. Some (ann_id a) = selectedId s) (annotations s) of
         None \<Rightarrow> False
       | Some selected \<Rightarrow>
           (let handleSize = 10 / getScale e;
                right = x selected + width selected;
                bottom = y selected + height selected
            in \<bar>x (imgPoint e) - right\<bar> < handleSize \<and> \<bar>y (imgPoint e) - bottom\<bar> < handleSize)))"

definition handleMouseDown :: "Pointer \<Rightarrow> Editor \<Rightarrow> Editor" where
  "handleMouseDown e s =
     (if \<not> refs e then s
      else
        let imgX = x (imgPoint e); imgY = y (imgPoint e) in
          if tool s = Select then
            (if hitsResizeHandle e s then s\<lparr>dragMode := Some ResizeSE, isDrawing := True\<rparr>
             else
               (case find (\<lambda>a. imgX \<ge> x a \<and> imgX \<le> x a + width a \<and>
                               imgY \<ge> y a \<and> imgY \<le> y a + height a)
                          (rev (annotations s)) of
                  Some clicked \<Rightarrow>
                    s\<lparr>selectedId := Some (ann_id clicked),
                      dragMode := Some Move,
                      dragOffset := Some \<lparr>x = imgX - x clicked, y = imgY - y clicked\<rparr>,
                      isDrawing := True\<rparr>
                | None \<Rightarrow> s\<lparr>selectedId := None\<rparr>))
          else if tool s = Rect then
            s\<lparr>selectedId := None,
              isDrawing := True,
              startPoint := Some \<lparr>x = imgX, y = imgY\<rparr>,
              currentRect := Some \<lparr>x = imgX, y = imgY, width = 0, height = 0\<rparr>\<rparr>
          else s)"

definition handleMouseMove :: "Pointer \<Rightarrow> Editor \<Rightarrow> Editor" where
  "handleMouseMove e s =
     (if \<not> isDrawing s \<or> \<not> refs e then s
      else
        let imgX = x (imgPoint e); imgY = y (imgPoint e) in
          if tool s = Rect \<and> startPoint s \<noteq> None then
            (let sp = the (startPoint s);
                 w = imgX - x sp;
                 h = imgY - y sp
             in s\<lparr>currentRect :=
                    Some \<lparr>x = (if w > 0 then x sp else imgX),
                          y = (if h > 0 then y sp else imgY),
                          width = \<bar>w\<bar>,
                          height = \<bar>h\<bar>\<rparr>\<rparr>)
          else if tool s = Select \<and> truthy (selectedId s) then
            (if dragMode s = Some Move \<and> dragOffset s \<noteq> None then
               (let off = the (dragOffset s);
                    newX = imgX - x off;
                    newY = imgY - y off
                in s\<lparr>annotations :=
                       map (\<lambda>a. if Some (ann_id a) = selectedId s then a\<lparr>x := newX, y := newY\<rparr> else a)
                           (annotations s)\<rparr>)
             else if dragMode s = Some ResizeSE then
               (case find (\<lambda>a. Some (ann_id a) = selectedId s) (annotations s) of
                  None \<Rightarrow> s
                | Some selected \<Rightarrow>
                    (let newW = max 10 (imgX - x selected);
                         newH = max 10 (imgY - y selected)
                     in s\<lparr>annotations :=
                            map (\<lambda>a. if Some (ann_id a) = selectedId s
                                      then a\<lparr>width := newW, height := newH\<rparr> else a)
                                (annotations s)\<rparr>))
             else s)
          else s)"

text \<open>
  \<open>newId\<close> is the identifier drawn from \<open>Math.random\<close>. The test
  \<open>currentRect && currentRect.width && currentRect.width > 5\<close> reads the width only; a
  width of 0 is falsy.
\<close>

definition handleMouseUp :: "string \<Rightarrow> Editor \<Rightarrow> Editor" where
  "handleMouseUp newId s =
     (let s' =
        (if isDrawing s then
           (if tool s = Rect \<and>
               (case currentRect s of None \<Rightarrow> False | Some r \<Rightarrow> width r \<noteq> 0 \<and> width r > 5)
            then
              (let r = the (currentRect s);
                   newAnn = \<lparr>x = x r, y = y r, width = width r, height = height r,
                             ann_id = newId, ann_text = [], color = activeColor s\<rparr>
               in (updateAnnotationsWithHistory (annotations s @ [newAnn]) s)
                    \<lparr>selectedId := Some newId, tool := Select\<rparr>)
            else if dragMode s \<noteq> None then updateAnnotationsWithHistory (annotations s) s
            else s)
         else s)
      in s'\<lparr>isDrawing := False, startPoint := None, currentRect := None, dragMode := None\<rparr>)"

definition deleteSelected :: "Editor \<Rightarrow> Editor" where
  "deleteSelected s =
     (if truthy (selectedId s) then
        (updateAnnotationsWithHistory
           (filter (\<lambda>a. Some (ann_id a) \<noteq> selectedId s) (annotations s)) s)
          \<lparr>selectedId := None\<rparr>
      else s)"

definition handleTextChange :: "string \<Rightarrow> string \<Rightarrow> Editor \<Rightarrow> Editor" where
  "handleTextChange i t s =
     s\<lparr>annotations := map (\<lambda>a. if ann_id a = i then a\<lparr>ann_text := t\<rparr> else a) (annotations s)\<rparr>"

text \<open>
  A drag with the pointer: pointer-down at \<open>e0\<close>, then one pointer-move for each event of
  \<open>es\<close>, in order.
\<close>

definition drag :: "Pointer \<Rightarrow> Pointer list \<Rightarrow> Editor \<Rightarrow> Editor" where
  "drag e0 es s = foldl (\<lambda>st e. handleMouseMove e st) (handleMouseDown e0 s) es"

text \<open>
  The axis-aligned bounding box of two points, as the specification words it: its corner is
  the least coordinate on each axis and its extents are the differences between the greatest
  and the least.
\<close>

definition boundingBox :: "Point \<Rightarrow> Point \<Rightarrow> Box" where
  "boundingBox p q =
     \<lparr>x = min (x p) (x q), y = min (y p) (y q),
      width = max (x p) (x q) - min (x p) (x q),
      height = max (y p) (y q) - min (y p) (y q)\<rparr>"

text \<open>
  The states an editor can be in: the state after a mount (with whatever annotation list the
  application holds at that moment), and what each handler and each control makes of such a
  state: the pointer handlers, typing into a note, the commit when a note loses focus,
  delete, undo, redo, the tool and colour buttons and keys, and a click on an annotation.
\<close>

inductive reachable :: "Editor \<Rightarrow> bool" where
  mount: "reachable (initialEditor anns)"
| pointer_down: "reachable s \<Longrightarrow> reachable (handleMouseDown e s)"
| pointer_move: "reachable s \<Longrightarrow> reachable (handleMouseMove e s)"
| pointer_up: "reachable s \<Longrightarrow> reachable (handleMouseUp newId s)"
| typing: "reachable s \<Longrightarrow> reachable (handleTextChange i t s)"
| blur: "reachable s \<Longrightarrow> reachable (updateAnnotationsWithHistory (annotations s) s)"
| delete: "reachable s \<Longrightarrow> reachable (deleteSelected s)"
| undone: "reachable s \<Longrightarrow> undo s = Some s1 \<Longrightarrow> reachable s1"
| redone: "reachable s \<Longrightarrow> reachable (redo s)"
| pick_tool: "reachable s \<Longrightarrow> reachable (s\<lparr>tool := t\<rparr>)"
| pick_color: "reachable s \<Longrightarrow> reachable (s\<lparr>activeColor := c\<rparr>)"
| click: "reachable s \<Longrightarrow> a \<in> set (annotations s) \<Longrightarrow>
          reachable (s\<lparr>selectedId := Some (ann_id a), tool := Select\<rparr>)"

section \<open>Compare view (CompareSlider.tsx)\<close>

text \<open>
  The part of the container's bounding rectangle that \<open>handleMove\<close> reads, and the state of
  the slider. A quotient by zero is not a finite number in JavaScript (\<open>0 / 0\<close> is NaN), so
  the position is an optional real: \<open>None\<close> stands for a value that is not a finite number.
\<close>

record DOMRect =
  rect_left :: real
  rect_width :: real

record Slider =
  position :: "real option"
  isDragging :: bool

definition initialSlider :: Slider where
  "initialSlider = \<lparr>position = Some 50, isDragging = False\<rparr>"

definition js_divide :: "real \<Rightarrow> real \<Rightarrow> real option" where
  "js_divide a b = (if b = 0 then None else Some (a / b))"

text \<open>\<open>container\<close> is \<open>containerRef.current\<close>: \<open>None\<close> when the reference is not set.\<close>

definition handleMove :: "real \<Rightarrow> DOMRect option \<Rightarrow> Slider \<Rightarrow> Slider" where
  "handleMove cx container s =
     (case container of
        None \<Rightarrow> s
      | Some rect \<Rightarrow>
          (let px = max 0 (min (cx - rect_left rect) (rect_width rect))
           in s\<lparr>position := map_option (\<lambda>q. q * 100) (js_divide px (rect_width rect))\<rparr>))"

definition onMouseMove :: "real \<Rightarrow> DOMRect option \<Rightarrow> Slider \<Rightarrow> Slider" where
  "onMouseMove cx container s = (if \<not> isDragging s then s else handleMove cx container s)"

section \<open>Thrown values\<close>

text \<open>
  What a \<open>throw\<close> or a rejected promise carries, as far as the code reads it: the
  \<open>message\<close> property. \<open>new Error(m)\<close> has the message \<open>m\<close>; a value that is no error
  object (the event of a failed image load) has none. A failing call is the left summand
  of its result.
\<close>

datatype thrown = Thrown (message: "string option")

text \<open>The idiom \<open>err.message || fallback\<close>.\<close>

definition message_or :: "thrown \<Rightarrow> string \<Rightarrow> string" where
  "message_or err fallback =
     (case message err of None \<Rightarrow> fallback | Some m \<Rightarrow> (if m \<noteq> [] then m else fallback))"

section \<open>Constants (constants.ts)\<close>


fun COLOR_MAP :: "AnnotationColor \<Rightarrow> string" where
  "COLOR_MAP Red = ''#FF3B30''"
| "COLOR_MAP Yellow = ''#FFCC00''"
| "COLOR_MAP Cyan = ''#5AC8FA''"



definition STROKE_WIDTH :: real where
  "STROKE_WIDTH = 3"

section \<open>Strings\<close>

text \<open>
  \<open>s.split(sep)\<close> for a one-character separator: the pieces between the separators, in
  order, always at least one piece.
\<close>

fun split_on :: "char \<Rightarrow> string \<Rightarrow> string list" where
  "split_on sep [] = [[]]"
| "split_on sep (ch # cs) =
     (if ch = sep then [] # split_on sep cs
      else (case split_on sep cs of
              [] \<Rightarrow> [[ch]]
            | piece # pieces \<Rightarrow> (ch # piece) # pieces))"

text \<open>A natural number in decimal, as a template literal prints it.\<close>

fun decimal :: "nat \<Rightarrow> string" where
  "decimal n =
     (if n < 10 then [''0123456789'' ! n]
      else decimal (n div 10) @ [''0123456789'' ! (n mod 10)])"

section \<open>Edit service (services/gemini.ts)\<close>

text \<open>
  The response of the generative API as far as \<open>editImage\<close> reads it; every property is
  optional in the API's types.
\<close>

record Blob =
  data :: "string option"
  mimeType :: "string option"

record Part =
  inlineData :: "Blob option"
  partText :: "string option"

record Content =
  parts :: "Part list option"

record Candidate =
  content :: "Content option"

record GenerateContentResponse =
  candidates :: "Candidate list option"

text \<open>The request \<open>editImage\<close> builds (the response modality is always the image one).\<close>

record GenerateContentRequest =
  model :: string
  requestData :: string
  requestMimeType :: string
  requestText :: string

text \<open>\<open>response.candidates?.[0]?.content?.parts\<close>\<close>

definition responseParts :: "GenerateContentResponse \<Rightarrow> Part list option" where
  "responseParts response =
     (case candidates response of
        None \<Rightarrow> None
      | Some cs \<Rightarrow>
          (case js_index cs 0 of
             None \<Rightarrow> None
           | Some cand \<Rightarrow> (case content cand of None \<Rightarrow> None | Some ct \<Rightarrow> parts ct)))"

text \<open>
  The data the code returns from a response, if any: the first part of the first candidate
  must carry inline data with a non-empty \<open>data\<close> string.
\<close>

definition firstPartData :: "GenerateContentResponse \<Rightarrow> string option" where
  "firstPartData response =
     (case responseParts response of
        None \<Rightarrow> None
      | Some [] \<Rightarrow> None
      | Some (part # rest) \<Rightarrow>
          (case inlineData part of
             None \<Rightarrow> None
           | Some blob \<Rightarrow>
               (case data blob of None \<Rightarrow> None | Some d \<Rightarrow> (if d \<noteq> [] then Some d else None))))"

text \<open>
  The argument of the remote call: the image without its data-URL header
  (\<open>base64Image.split(',')[1] || base64Image\<close>), the MIME type and the prompt.
\<close>

definition editRequest :: "string \<Rightarrow> string \<Rightarrow> string \<Rightarrow> GenerateContentRequest" where
  "editRequest base64Image prompt mime =
     (let cleanBase64 =
            (case js_index (split_on CHR '','' base64Image) 1 of
               None \<Rightarrow> base64Image
             | Some piece \<Rightarrow> (if piece \<noteq> [] then piece else base64Image))
      in \<lparr>model = ''gemini-2.5-flash-image'', requestData = cleanBase64,
          requestMimeType = mime, requestText = prompt\<rparr>)"

text \<open>
  \<open>key\<close> is \<open>process.env.API_KEY || ''\<close>; \<open>generate\<close> is the remote call
  \<open>ai.models.generateContent\<close>, which answers or throws. Everything after the key test
  runs inside \<open>try\<close>; the \<open>catch\<close> rethrows with the caught message or the fallback.
\<close>

definition editImage ::
  "string \<Rightarrow> (GenerateContentRequest \<Rightarrow> thrown + GenerateContentResponse) \<Rightarrow>
   string \<Rightarrow> string \<Rightarrow> string \<Rightarrow> thrown + string" where
  "editImage key generate base64Image prompt mime =
     (if key = [] then
        Inl (Thrown (Some ''API Key not found. Please set the API_KEY environment variable.''))
      else
        let attempt =
              (case generate (editRequest base64Image prompt mime) of
                 Inl err \<Rightarrow> Inl err
               | Inr response \<Rightarrow>
                   (case firstPartData response of
                      Some d \<Rightarrow> Inr (''data:image/png;base64,'' @ d)
                    | None \<Rightarrow> Inl (Thrown (Some ''No image generated in response.''))))
        in (case attempt of
              Inl err \<Rightarrow> Inl (Thrown (Some (message_or err ''Failed to process image with Gemini.'')))
            | Inr out \<Rightarrow> Inr out))"

text \<open>
  The specification's words \<open>the API response contains inline image data\<close>: some part of
  some candidate carries inline data with a non-empty \<open>data\<close> string.
\<close>

definition partHasImage :: "Part \<Rightarrow> bool" where
  "partHasImage part =
     (case inlineData part of
        None \<Rightarrow> False
      | Some blob \<Rightarrow> (case data blob of None \<Rightarrow> False | Some d \<Rightarrow> d \<noteq> []))"

definition candidateParts :: "Candidate \<Rightarrow> Part list" where
  "candidateParts cand =
     (case content cand of
        None \<Rightarrow> []
      | Some ct \<Rightarrow> (case parts ct of None \<Rightarrow> [] | Some ps \<Rightarrow> ps))"

definition containsImageData :: "GenerateContentResponse \<Rightarrow> bool" where
  "containsImageData response =
     (case candidates response of
        None \<Rightarrow> False
      | Some cs \<Rightarrow> list_ex (\<lambda>cand. list_ex partHasImage (candidateParts cand)) cs)"

section \<open>Flattening (utils/canvas.ts)\<close>

text \<open>
  A loaded image element: its intrinsic pixel size and its \<open>width\<close> property. A canvas is
  its pixel size, the drawing state the code sets, and the drawing calls made on it so far,
  in order; how the browser rasterises a call is not modelled.
\<close>

record HTMLImageElement =
  naturalWidth :: nat
  naturalHeight :: nat
  elementWidth :: nat

datatype DrawCall =
    DrawImage HTMLImageElement real real
  | StrokeRect string real real real real real
  | FillText string string string string real real

record Canvas =
  canvasWidth :: nat
  canvasHeight :: nat
  strokeStyle :: string
  lineWidth :: real
  font :: string
  fillStyle :: string
  textBaseline :: string
  calls :: "DrawCall list"

text \<open>A canvas as \<open>document.createElement('canvas')\<close> gives it, with a fresh 2D context.\<close>

definition createCanvas :: Canvas where
  "createCanvas =
     \<lparr>canvasWidth = 300, canvasHeight = 150, strokeStyle = ''#000000'', lineWidth = 1,
      font = ''10px sans-serif'', fillStyle = ''#000000'', textBaseline = ''alphabetic'',
      calls = []\<rparr>"

text \<open>
  What the code asks of the browser and of the network: loading an image from a source,
  whether a 2D context is available, the measured width of a text in a font, the encoding of
  a canvas as a data URL, the API key of the environment, and the remote call.
\<close>

record Env =
  loadImage :: "string \<Rightarrow> thrown + HTMLImageElement"
  hasContext :: bool
  measureText :: "string \<Rightarrow> string \<Rightarrow> real"
  toDataURL :: "string \<Rightarrow> Canvas \<Rightarrow> string"
  apiKey :: string
  generateContent :: "GenerateContentRequest \<Rightarrow> thrown + GenerateContentResponse"

text \<open>
  The wrapping loop over the words \<open>w # ws\<close> still to place: \<open>first\<close> says that the index
  \<open>n\<close> is 0, \<open>line\<close> and \<open>ypos\<close> are the loop's variables. The result lists the
  \<open>fillText\<close> calls made, the one after the loop included, as text and vertical position.
\<close>

fun wrapText ::
  "(string \<Rightarrow> real) \<Rightarrow> real \<Rightarrow> real \<Rightarrow> string list \<Rightarrow> bool \<Rightarrow> string \<Rightarrow> real \<Rightarrow>
   (string \<times> real) list" where
  "wrapText widthOf maxWidth lineHeight [] first line ypos = [(line, ypos)]"
| "wrapText widthOf maxWidth lineHeight (w # ws) first line ypos =
     (let testLine = line @ w @ '' '' in
        if widthOf testLine > maxWidth \<and> \<not> first
        then (line, ypos) # wrapText widthOf maxWidth lineHeight ws False (w @ '' '') (ypos + lineHeight)
        else wrapText widthOf maxWidth lineHeight ws False testLine ypos)"

text \<open>The body of \<open>annotations.forEach\<close>: the box, then the note if there is one.\<close>

definition drawAnnotation :: "Env \<Rightarrow> HTMLImageElement \<Rightarrow> Canvas \<Rightarrow> Annotation \<Rightarrow> Canvas" where
  "drawAnnotation env img ctx ann =
     (let paint = COLOR_MAP (color ann);
          c1 = ctx\<lparr>strokeStyle := paint, lineWidth := STROKE_WIDTH\<rparr>;
          c2 = c1\<lparr>calls := calls c1 @
                  [StrokeRect (strokeStyle c1) (lineWidth c1) (x ann) (y ann) (width ann) (height ann)]\<rparr>
      in if ann_text ann \<noteq> [] then
           (let fontSize = max 16 (elementWidth img div 50);
                c3 = c2\<lparr>font := ''bold '' @ decimal fontSize @ ''px Inter, sans-serif'',
                        fillStyle := paint, textBaseline := ''top''\<rparr>;
                wordList = split_on CHR '' '' (ann_text ann);
                placed = wrapText (measureText env (font c3)) (width ann - 10)
                           (real fontSize * 1.2) wordList True [] (y ann + 5)
            in c3\<lparr>calls := calls c3 @
                   map (\<lambda>(line, ypos).
                          FillText (font c3) (fillStyle c3) (textBaseline c3) line (x ann + 5) ypos)
                       placed\<rparr>)
         else c2)"

text \<open>
  \<open>flattenAnnotations\<close> up to its last line: the canvas that is then encoded. A failed
  load rejects with what \<open>loadImage\<close> rejects with; a missing context throws.
\<close>

definition flattenCanvas :: "Env \<Rightarrow> string \<Rightarrow> Annotation list \<Rightarrow> thrown + Canvas" where
  "flattenCanvas env src anns =
     (case loadImage env src of
        Inl err \<Rightarrow> Inl err
      | Inr img \<Rightarrow>
          (let canvas = createCanvas\<lparr>canvasWidth := naturalWidth img,
                                     canvasHeight := naturalHeight img\<rparr>
           in if \<not> hasContext env then Inl (Thrown (Some ''Could not get canvas context''))
              else
                (let c0 = canvas\<lparr>calls := calls canvas @ [DrawImage img 0 0]\<rparr>
                 in Inr (foldl (drawAnnotation env img) c0 anns))))"

definition flattenAnnotations :: "Env \<Rightarrow> string \<Rightarrow> Annotation list \<Rightarrow> string \<Rightarrow> thrown + string" where
  "flattenAnnotations env src anns mime =
     (case flattenCanvas env src anns of
        Inl err \<Rightarrow> Inl err
      | Inr canvas \<Rightarrow> Inr (toDataURL env mime canvas))"

section \<open>Application (App.tsx)\<close>

datatype Stage = Upload | Edit | Result







section \<open>Concrete inputs\<close>

text \<open>
  Inputs the theorems are instantiated at. Three annotations, the first the one of the
  specification's example.
\<close>

definition hat_note :: Annotation where
  "hat_note = \<lparr>x = 10, y = 10, width = 100, height = 40,
                ann_id = ''a1'', ann_text = ''remove hat'', color = Red\<rparr>"

definition sky_note :: Annotation where
  "sky_note = \<lparr>x = 200, y = 30, width = 80, height = 60,
                ann_id = ''b2'', ann_text = ''bluer sky'', color = Cyan\<rparr>"


text \<open>
  An editor with three snapshots whose cursor is on the middle one (one step can be undone,
  one redone), and one with an annotation selected under the select tool.
\<close>

definition mid_editor :: Editor where
  "mid_editor =
     \<lparr>annotations = [hat_note], tool = Select, selectedId = None, activeColor = Red,
      history = [[], [hat_note], [hat_note, sky_note]], historyIndex = 1,
      isDrawing = False, startPoint = None, currentRect = None, dragMode = None,
      dragOffset = None\<rparr>"

definition sel_editor :: Editor where
  "sel_editor =
     \<lparr>annotations = [hat_note, sky_note], tool = Select, selectedId = Some ''a1'',
      activeColor = Red, history = [[], [hat_note], [hat_note, sky_note]], historyIndex = 2,
      isDrawing = False, startPoint = None, currentRect = None, dragMode = None,
      dragOffset = None\<rparr>"

text \<open>
  A pointer at a client position, over an editor whose container starts at (20, 30) and
  shows a 500 pixel wide image at half its size; and the bounding rectangle of a compare
  view 800 pixels wide.
\<close>

definition pointer_at :: "real \<Rightarrow> real \<Rightarrow> Pointer" where
  "pointer_at cx cy =
     \<lparr>clientX = cx, clientY = cy, rectLeft = 20, rectTop = 30, refs = True,
      imgWidth = 250, imgNaturalWidth = 500\<rparr>"

text \<open>
  The editor after drawing one box on an empty image, and the same editor after the note
  \<open>remove hat\<close> has been typed into the box and not yet committed.
\<close>

definition drawn_editor :: Editor where
  "drawn_editor =
     handleMouseUp ''n1''
       (drag (pointer_at 120 80) [pointer_at 100 70, pointer_at 70 60] (initialEditor []))"

definition typed_editor :: Editor where
  "typed_editor = handleTextChange ''n1'' ''remove hat'' drawn_editor"

definition wide_rect :: DOMRect where
  "wide_rect = \<lparr>rect_left = 40, rect_width = 800\<rparr>"

text \<open>
  Three responses of the API: one whose first part is text and whose second part is the
  image, one with the image alone, one with no part.
\<close>

definition text_then_image :: GenerateContentResponse where
  "text_then_image =
     \<lparr>candidates = Some [\<lparr>content = Some \<lparr>parts = Some
        [\<lparr>inlineData = None, partText = Some ''Here is the edited image.''\<rparr>,
         \<lparr>inlineData = Some \<lparr>data = Some ''iVBORw0KGgo='', mimeType = Some ''image/png''\<rparr>,
          partText = None\<rparr>]\<rparr>\<rparr>]\<rparr>"

definition image_only :: GenerateContentResponse where
  "image_only =
     \<lparr>candidates = Some [\<lparr>content = Some \<lparr>parts = Some
        [\<lparr>inlineData = Some \<lparr>data = Some ''iVBORw0KGgo='', mimeType = Some ''image/png''\<rparr>,
          partText = None\<rparr>]\<rparr>\<rparr>]\<rparr>"

definition no_parts :: GenerateContentResponse where
  "no_parts = \<lparr>candidates = Some [\<lparr>content = Some \<lparr>parts = Some []\<rparr>\<rparr>]\<rparr>"

text \<open>
  A 500 by 400 image, an environment in which everything succeeds (text is measured at 9
  pixels a character), and the application before a first generation and after one.
\<close>

definition photo :: HTMLImageElement where
  "photo = \<lparr>naturalWidth = 500, naturalHeight = 400, elementWidth = 500\<rparr>"

definition demo_env :: Env where
  "demo_env =
     \<lparr>loadImage = (\<lambda>src. Inr photo),
      hasContext = True,
      measureText = (\<lambda>f t. 9 * real (length t)),
      toDataURL = (\<lambda>mime canvas. ''data:image/png;base64,RkxBVA==''),
      apiKey = ''secret'',
      generateContent = (\<lambda>req. Inr image_only)\<rparr>"



section \<open>Drawing a rectangle\<close>

lemma boundingBox_same: "boundingBox p p = \<lparr>x = x p, y = y p, width = 0, height = 0\<rparr>"
  by (simp add: boundingBox_def)

lemma boundingBox_nonneg: "0 \<le> width (boundingBox p q) \<and> 0 \<le> height (boundingBox p q)"
  by (simp add: boundingBox_def min_def max_def)

lemma rendered_refs: "rendered e \<Longrightarrow> refs e"
  by (simp add: rendered_def)

lemma imgPoint_pointer_at: "imgPoint (pointer_at cx cy) = \<lparr>x = (cx - 20) * 2, y = (cy - 30) * 2\<rparr>"
  by (simp add: imgPoint_def pointer_at_def getScale_def getRelativePointerPosition_def Let_def)

lemma rendered_pointer_at: "rendered (pointer_at cx cy)"
  by (simp add: rendered_def pointer_at_def)

lemma handleMouseDown_rect:
  assumes "refs e" and "tool s = Rect"
  shows "handleMouseDown e s =
           s\<lparr>selectedId := None, isDrawing := True, startPoint := Some (imgPoint e),
             currentRect := Some (boundingBox (imgPoint e) (imgPoint e))\<rparr>"
  using assms by (simp add: handleMouseDown_def Let_def boundingBox_same)

lemma handleMouseMove_rect:
  assumes "refs e" and "isDrawing s" and "tool s = Rect" and "startPoint s = Some sp"
  shows "handleMouseMove e s = s\<lparr>currentRect := Some (boundingBox sp (imgPoint e))\<rparr>"
proof -
  have "\<lparr>x = (if x (imgPoint e) - x sp > 0 then x sp else x (imgPoint e)),
         y = (if y (imgPoint e) - y sp > 0 then y sp else y (imgPoint e)),
         width = \<bar>x (imgPoint e) - x sp\<bar>,
         height = \<bar>y (imgPoint e) - y sp\<bar>\<rparr> = boundingBox sp (imgPoint e)"
    by (simp add: boundingBox_def min_def max_def)
  then show ?thesis using assms by (simp add: handleMouseMove_def Let_def)
qed

lemma moves_rect:
  assumes "isDrawing s" and "tool s = Rect" and "startPoint s = Some sp"
    and "\<forall>e\<in>set es. refs e"
  shows "foldl (\<lambda>st e. handleMouseMove e st) s es =
           s\<lparr>currentRect := (if es = [] then currentRect s
                               else Some (boundingBox sp (imgPoint (last es))))\<rparr>"
  using assms
proof (induction es arbitrary: s)
  case Nil
  then show ?case by simp
next
  case (Cons e es)
  let ?s1 = "s\<lparr>currentRect := Some (boundingBox sp (imgPoint e))\<rparr>"
  have step: "handleMouseMove e s = ?s1"
    using Cons.prems by (simp add: handleMouseMove_rect)
  have "foldl (\<lambda>st e. handleMouseMove e st) ?s1 es =
          ?s1\<lparr>currentRect := (if es = [] then currentRect ?s1
                               else Some (boundingBox sp (imgPoint (last es))))\<rparr>"
    using Cons.prems by (intro Cons.IH) simp_all
  then show ?case using step by simp
qed

lemma drag_rect:
  assumes "tool s = Rect" and "refs e0" and "\<forall>e\<in>set es. refs e"
  shows "drag e0 es s =
           s\<lparr>selectedId := None, isDrawing := True, startPoint := Some (imgPoint e0),
             currentRect := Some (boundingBox (imgPoint e0) (imgPoint (last (e0 # es))))\<rparr>"
proof -
  let ?s0 = "handleMouseDown e0 s"
  have d: "?s0 = s\<lparr>selectedId := None, isDrawing := True, startPoint := Some (imgPoint e0),
             currentRect := Some (boundingBox (imgPoint e0) (imgPoint e0))\<rparr>"
    using assms by (simp add: handleMouseDown_rect)
  have "foldl (\<lambda>st e. handleMouseMove e st) ?s0 es =
          ?s0\<lparr>currentRect := (if es = [] then currentRect ?s0
                               else Some (boundingBox (imgPoint e0) (imgPoint (last es))))\<rparr>"
    using assms by (intro moves_rect) (simp_all add: d)
  then show ?thesis by (simp add: drag_def d)
qed

lemma handleMouseUp_small:
  assumes "currentRect s = Some r" and "width r \<le> 5"
  shows "annotations (handleMouseUp nid s) = annotations s"
  using assms by (simp add: handleMouseUp_def updateAnnotationsWithHistory_def Let_def)

lemma handleMouseUp_large:
  assumes "isDrawing s" and "tool s = Rect" and "currentRect s = Some r" and "5 < width r"
  shows "annotations (handleMouseUp nid s) =
           annotations s @ [\<lparr>x = x r, y = y r, width = width r, height = height r,
                              ann_id = nid, ann_text = [], color = activeColor s\<rparr>]"
  using assms by (simp add: handleMouseUp_def updateAnnotationsWithHistory_def Let_def)

text \<open>
  What the size test of \<open>handleMouseUp\<close> decides, on the rectangle the handler reads: a
  rectangle being drawn is dropped exactly when its width is at most 5. The height is not
  read.
\<close>

lemma mouseUp_width_test:
  assumes "isDrawing s" and "tool s = Rect" and "currentRect s = Some r"
  shows "(annotations (handleMouseUp newId s) = annotations s) = (width r \<le> 5)"
  using assms by (simp add: handleMouseUp_def updateAnnotationsWithHistory_def Let_def not_less)

text \<open>
  Claim C6. With the rectangle tool, after pointer-down at \<open>e0\<close> and any pointer-moves
  \<open>es\<close> on the rendered image, the transient rectangle is the bounding box of the start
  point and the last pointer position (in image coordinates), its width and height are
  not negative, and when pointer-up commits it (width above 5) the annotation appended has
  exactly that geometry. The statement holds for every prefix of a drag, so for the
  rectangle after each move.
\<close>

theorem rect_drag_bounding_box:
  assumes "tool s = Rect" and "rendered e0" and "\<forall>e\<in>set es. rendered e"
  shows "\<exists>r. currentRect (drag e0 es s) = Some r \<and>
             r = boundingBox (imgPoint e0) (imgPoint (last (e0 # es))) \<and>
             0 \<le> width r \<and> 0 \<le> height r \<and>
             (5 < width r \<longrightarrow>
                annotations (handleMouseUp newId (drag e0 es s)) =
                  annotations s @ [\<lparr>x = x r, y = y r, width = width r, height = height r,
                                     ann_id = newId, ann_text = [], color = activeColor s\<rparr>])"
proof -
  let ?r = "boundingBox (imgPoint e0) (imgPoint (last (e0 # es)))"
  let ?d = "drag e0 es s"
  have d: "?d = s\<lparr>selectedId := None, isDrawing := True, startPoint := Some (imgPoint e0),
                   currentRect := Some ?r\<rparr>"
    using assms by (intro drag_rect) (simp_all add: rendered_refs)
  have c: "currentRect ?d = Some ?r" by (simp add: d)
  have up: "annotations (handleMouseUp newId ?d) =
              annotations s @ [\<lparr>x = x ?r, y = y ?r, width = width ?r, height = height ?r,
                                 ann_id = newId, ann_text = [], color = activeColor s\<rparr>]"
    if "5 < width ?r"
  proof -
    have "annotations (handleMouseUp newId ?d) =
           annotations ?d @ [\<lparr>x = x ?r, y = y ?r, width = width ?r, height = height ?r,
                              ann_id = newId, ann_text = [], color = activeColor ?d\<rparr>]"
      using that assms(1) by (intro handleMouseUp_large) (simp_all add: d)
    then show ?thesis by (simp add: d)
  qed
  show ?thesis using c up boundingBox_nonneg [of "imgPoint e0" "imgPoint (last (e0 # es))"] by simp
qed

theorem rect_drag_bounding_box_witness:
  "tool (initialEditor []) = Rect \<and> rendered (pointer_at 120 80) \<and>
   rendered (pointer_at 100 70) \<and> rendered (pointer_at 70 60) \<and>
   currentRect (drag (pointer_at 120 80) [pointer_at 100 70, pointer_at 70 60] (initialEditor [])) =
     Some \<lparr>x = 100, y = 60, width = 100, height = 40\<rparr> \<and>
   annotations (handleMouseUp ''n1''
       (drag (pointer_at 120 80) [pointer_at 100 70, pointer_at 70 60] (initialEditor []))) =
     [\<lparr>x = 100, y = 60, width = 100, height = 40, ann_id = ''n1'', ann_text = [], color = Red\<rparr>]"
proof -
  let ?es = "[pointer_at 100 70, pointer_at 70 60]"
  let ?d = "drag (pointer_at 120 80) ?es (initialEditor [])"
  have t: "tool (initialEditor []) = Rect" by (simp add: initialEditor_def)
  have r: "\<forall>e\<in>set ?es. rendered e"
    by (simp add: rendered_pointer_at)
  obtain b where c: "currentRect ?d = Some b"
    and b: "b = boundingBox (imgPoint (pointer_at 120 80)) (imgPoint (last (pointer_at 120 80 # ?es)))"
    and u: "5 < width b \<longrightarrow>
              annotations (handleMouseUp ''n1'' ?d) =
                annotations (initialEditor []) @
                  [\<lparr>x = x b, y = y b, width = width b, height = height b,
                    ann_id = ''n1'', ann_text = [], color = activeColor (initialEditor [])\<rparr>]"
    using rect_drag_bounding_box [OF t rendered_pointer_at r, of 120 80 "''n1''"] by blast
  have v: "b = \<lparr>x = 100, y = 60, width = 100, height = 40\<rparr>"
    using b by (simp add: imgPoint_pointer_at boundingBox_def)
  have "annotations (handleMouseUp ''n1'' ?d) =
     [\<lparr>x = 100, y = 60, width = 100, height = 40, ann_id = ''n1'', ann_text = [], color = Red\<rparr>]"
    using u by (simp add: v initialEditor_def)
  then show ?thesis using t c v by (simp add: rendered_pointer_at)
qed

text \<open>
  Claim C1 fails on the code. A drag with the rectangle tool from the image point (200, 100)
  to (300, 100) draws a rectangle 100 wide and 0 high. A rectangle of height 0 is below every
  minimum size that counts both sides, as the minimum of the resize path does, and pointer-up
  appends it to the annotation list.
\<close>

theorem flat_rect_committed:
  "currentRect (drag (pointer_at 120 80) [pointer_at 170 80] (initialEditor [])) =
     Some \<lparr>x = 200, y = 100, width = 100, height = 0\<rparr> \<and>
   annotations (handleMouseUp ''n1'' (drag (pointer_at 120 80) [pointer_at 170 80] (initialEditor []))) =
     [\<lparr>x = 200, y = 100, width = 100, height = 0, ann_id = ''n1'', ann_text = [], color = Red\<rparr>]"
proof -
  have t: "tool (initialEditor []) = Rect" by (simp add: initialEditor_def)
  have d: "drag (pointer_at 120 80) [pointer_at 170 80] (initialEditor []) =
     (initialEditor [])\<lparr>selectedId := None, isDrawing := True,
        startPoint := Some (imgPoint (pointer_at 120 80)),
        currentRect := Some \<lparr>x = 200, y = 100, width = 100, height = 0\<rparr>\<rparr>"
    using t by (simp add: drag_rect rendered_pointer_at rendered_refs imgPoint_pointer_at boundingBox_def)
  show ?thesis
    unfolding d by (simp add: handleMouseUp_def updateAnnotationsWithHistory_def Let_def initialEditor_def)
qed

section \<open>History: undo and redo\<close>

lemma cursor_shows_initial: "cursor_shows (initialEditor [])"
  by (simp add: cursor_shows_def initialEditor_def js_index_def)


lemma undo_in_range:
  "historyIndex s < length (history s) \<Longrightarrow> 0 < historyIndex s \<Longrightarrow>
   undo s = Some (s\<lparr>historyIndex := historyIndex s - 1,
                    annotations := history s ! (historyIndex s - 1),
                    selectedId := None\<rparr>)"
  by (simp add: undo_def js_index_def)


lemma cursor_shows_mid_editor: "cursor_shows mid_editor"
  by (simp add: mid_editor_def cursor_shows_def js_index_def)







lemma reachable_moves:
  "reachable s \<Longrightarrow> reachable (foldl (\<lambda>st e. handleMouseMove e st) s es)"
  by (induction es arbitrary: s) (simp_all add: reachable.pointer_move)

lemma reachable_drag: "reachable s \<Longrightarrow> reachable (drag e0 es s)"
  by (simp add: drag_def reachable_moves reachable.pointer_down)

lemma reachable_typed_editor: "reachable typed_editor"
  unfolding typed_editor_def drawn_editor_def
  by (intro reachable.typing reachable.pointer_up reachable_drag reachable.mount)

lemma drawn_editor_eq:
  "drawn_editor =
     \<lparr>annotations = [\<lparr>x = 100, y = 60, width = 100, height = 40,
                        ann_id = ''n1'', ann_text = [], color = Red\<rparr>],
      tool = Select, selectedId = Some ''n1'', activeColor = Red,
      history = [[], [\<lparr>x = 100, y = 60, width = 100, height = 40,
                        ann_id = ''n1'', ann_text = [], color = Red\<rparr>]],
      historyIndex = 1, isDrawing = False, startPoint = None, currentRect = None,
      dragMode = None, dragOffset = None\<rparr>"
proof -
  have t: "tool (initialEditor []) = Rect" by (simp add: initialEditor_def)
  have d: "drag (pointer_at 120 80) [pointer_at 100 70, pointer_at 70 60] (initialEditor []) =
     (initialEditor [])\<lparr>selectedId := None, isDrawing := True,
        startPoint := Some (imgPoint (pointer_at 120 80)),
        currentRect := Some \<lparr>x = 100, y = 60, width = 100, height = 40\<rparr>\<rparr>"
    using t by (simp add: drag_rect rendered_pointer_at rendered_refs imgPoint_pointer_at boundingBox_def)
  show ?thesis
    unfolding drawn_editor_def d
    by (simp add: handleMouseUp_def updateAnnotationsWithHistory_def Let_def initialEditor_def)
qed

lemma typed_editor_eq:
  "typed_editor =
     \<lparr>annotations = [\<lparr>x = 100, y = 60, width = 100, height = 40,
                        ann_id = ''n1'', ann_text = ''remove hat'', color = Red\<rparr>],
      tool = Select, selectedId = Some ''n1'', activeColor = Red,
      history = [[], [\<lparr>x = 100, y = 60, width = 100, height = 40,
                        ann_id = ''n1'', ann_text = [], color = Red\<rparr>]],
      historyIndex = 1, isDrawing = False, startPoint = None, currentRect = None,
      dragMode = None, dragOffset = None\<rparr>"
  by (simp add: typed_editor_def drawn_editor_eq handleTextChange_def)


text \<open>
  Claim C4 as stated fails. After a box has been drawn and a note typed into it, undo is
  enabled; undo then redo displays the box without the note, which is not the list
  displayed before the undo.
\<close>

theorem undo_redo_loses_note:
  "reachable typed_editor \<and> 0 < historyIndex typed_editor \<and>
   annotations typed_editor =
     [\<lparr>x = 100, y = 60, width = 100, height = 40,
       ann_id = ''n1'', ann_text = ''remove hat'', color = Red\<rparr>] \<and>
   (\<exists>s1. undo typed_editor = Some s1 \<and>
         annotations (redo s1) =
           [\<lparr>x = 100, y = 60, width = 100, height = 40,
             ann_id = ''n1'', ann_text = [], color = Red\<rparr>] \<and>
         annotations (redo s1) \<noteq> annotations typed_editor)"
proof -
  have "0 < historyIndex typed_editor \<and>
   annotations typed_editor =
     [\<lparr>x = 100, y = 60, width = 100, height = 40,
       ann_id = ''n1'', ann_text = ''remove hat'', color = Red\<rparr>] \<and>
   (\<exists>s1. undo typed_editor = Some s1 \<and>
         annotations (redo s1) =
           [\<lparr>x = 100, y = 60, width = 100, height = 40,
             ann_id = ''n1'', ann_text = [], color = Red\<rparr>] \<and>
         annotations (redo s1) \<noteq> annotations typed_editor)"
    by (simp add: typed_editor_eq undo_def js_index_def redo_def)
  then show ?thesis using reachable_typed_editor by blast
qed

text \<open>
  Claim C4, amended. In every state where undo is enabled and the cursor is a position of
  the history (every state the editor can be in), undo succeeds, and redo after it displays
  the snapshot stored at the cursor, with the cursor and the stored snapshots as before.
  That list equals the one displayed before the undo exactly when the displayed list was the
  snapshot at the cursor, that is, carried no change not yet committed.
\<close>

theorem undo_then_redo:
  assumes "0 < historyIndex s" and "historyIndex s < length (history s)"
  shows "\<exists>s1. undo s = Some s1 \<and>
           js_index (history s) (historyIndex s) = Some (annotations (redo s1)) \<and>
           historyIndex (redo s1) = historyIndex s \<and>
           history (redo s1) = history s \<and>
           cursor_shows (redo s1) \<and>
           (annotations (redo s1) = annotations s) = cursor_shows s"
proof -
  define s1 where "s1 = s\<lparr>historyIndex := historyIndex s - 1,
                           annotations := history s ! (historyIndex s - 1),
                           selectedId := None\<rparr>"
  define s2 where "s2 = redo s1"
  have u: "undo s = Some s1"
    unfolding s1_def using undo_in_range [OF assms(2) assms(1)] .
  have a: "annotations s2 = history s ! historyIndex s"
    and i: "historyIndex s2 = historyIndex s"
    and h: "history s2 = history s"
    using assms by (simp_all add: s2_def s1_def redo_def)
  have j: "js_index (history s) (historyIndex s) = Some (annotations s2)"
    using assms(2) a by (simp add: js_index_def)
  have c: "cursor_shows s2"
    unfolding cursor_shows_def i h using assms(2) j by simp
  have e: "(annotations s2 = annotations s) = cursor_shows s"
    unfolding cursor_shows_def js_index_def a using assms(2) by auto
  show ?thesis using u j i h c e unfolding s2_def by blast
qed

theorem undo_then_redo_witness:
  "0 < historyIndex mid_editor \<and> historyIndex mid_editor < length (history mid_editor) \<and>
   cursor_shows mid_editor \<and>
   (\<exists>s1. undo mid_editor = Some s1 \<and> annotations s1 = [] \<and>
         annotations (redo s1) = [hat_note] \<and>
         annotations (redo s1) = annotations mid_editor \<and>
         historyIndex (redo s1) = 1 \<and>
         history (redo s1) = [[], [hat_note], [hat_note, sky_note]])"
proof -
  have a: "0 < historyIndex mid_editor" by (simp add: mid_editor_def)
  have b: "historyIndex mid_editor < length (history mid_editor)" by (simp add: mid_editor_def)
  have u: "undo mid_editor = Some (mid_editor\<lparr>historyIndex := 0, annotations := []\<rparr>)"
    by (simp add: undo_def js_index_def mid_editor_def)
  show ?thesis
    using a b cursor_shows_mid_editor undo_then_redo [OF a b] u
    by (auto simp: mid_editor_def)
qed



section \<open>Resizing an annotation\<close>

lemma handleMouseMove_mode:
  "tool (handleMouseMove e s) = tool s \<and> selectedId (handleMouseMove e s) = selectedId s \<and>
   dragMode (handleMouseMove e s) = dragMode s \<and> isDrawing (handleMouseMove e s) = isDrawing s \<and>
   history (handleMouseMove e s) = history s \<and> historyIndex (handleMouseMove e s) = historyIndex s"
  by (simp add: handleMouseMove_def Let_def split: option.splits)

lemma moves_mode:
  "tool (foldl (\<lambda>st e. handleMouseMove e st) s es) = tool s \<and>
   selectedId (foldl (\<lambda>st e. handleMouseMove e st) s es) = selectedId s \<and>
   dragMode (foldl (\<lambda>st e. handleMouseMove e st) s es) = dragMode s \<and>
   isDrawing (foldl (\<lambda>st e. handleMouseMove e st) s es) = isDrawing s"
  by (induction es arbitrary: s) (simp_all add: handleMouseMove_mode)

lemma resize_frame:
  assumes "isDrawing s" and "refs e" and "tool s = Select" and "truthy (selectedId s)"
    and "dragMode s = Some ResizeSE"
  shows "\<forall>a\<in>set (annotations (handleMouseMove e s)).
           Some (ann_id a) = selectedId s \<longrightarrow> 10 \<le> width a \<and> 10 \<le> height a"
proof (cases "find (\<lambda>a. Some (ann_id a) = selectedId s) (annotations s)")
  case None
  then have "\<forall>a\<in>set (annotations s). Some (ann_id a) \<noteq> selectedId s"
    by (simp add: find_None_iff)
  moreover have "handleMouseMove e s = s"
    using assms None by (simp add: handleMouseMove_def Let_def)
  ultimately show ?thesis by simp
next
  case (Some selected)
  then show ?thesis
    using assms by (auto simp: handleMouseMove_def Let_def)
qed

lemma handleMouseDown_handle:
  assumes "refs e" and "tool s = Select" and "hitsResizeHandle e s"
  shows "handleMouseDown e s = s\<lparr>dragMode := Some ResizeSE, isDrawing := True\<rparr>"
  using assms by (simp add: handleMouseDown_def Let_def)

lemma hitsResizeHandle_truthy: "hitsResizeHandle e s \<Longrightarrow> truthy (selectedId s)"
  by (simp add: hitsResizeHandle_def)

lemma handleMouseUp_commits_drag:
  assumes "isDrawing s" and "tool s = Select" and "dragMode s \<noteq> None"
  shows "annotations (handleMouseUp newId s) = annotations s \<and>
         last (history (handleMouseUp newId s)) = annotations s"
  using assms by (simp add: handleMouseUp_def updateAnnotationsWithHistory_def Let_def)

text \<open>
  Claim C10. A resize drag starts with pointer-down on the resize handle of the selected
  annotation under the select tool. After every pointer-move of the drag each annotation
  carrying the selected identifier is at least 10 wide and 10 high, and pointer-up commits
  the list of that frame unchanged, as the displayed list and as the last snapshot.
\<close>

theorem resize_keeps_minimum:
  assumes "tool s = Select" and "rendered e0" and "hitsResizeHandle e0 s"
    and "es \<noteq> []" and "\<forall>e\<in>set es. rendered e"
  shows "(\<forall>a\<in>set (annotations (drag e0 es s)).
            Some (ann_id a) = selectedId s \<longrightarrow> 10 \<le> width a \<and> 10 \<le> height a) \<and>
         annotations (handleMouseUp newId (drag e0 es s)) = annotations (drag e0 es s) \<and>
         last (history (handleMouseUp newId (drag e0 es s))) = annotations (drag e0 es s)"
proof -
  let ?mv = "\<lambda>st e. handleMouseMove e st"
  let ?s0 = "handleMouseDown e0 s"
  have s0: "?s0 = s\<lparr>dragMode := Some ResizeSE, isDrawing := True\<rparr>"
    using assms(1-3) by (simp add: handleMouseDown_handle rendered_refs)
  from assms(4) obtain es' e where es: "es = es' @ [e]"
    by (cases es rule: rev_cases) auto
  let ?p = "foldl ?mv ?s0 es'"
  have mode: "tool ?p = Select" "selectedId ?p = selectedId s" "dragMode ?p = Some ResizeSE"
    "isDrawing ?p"
    using assms(1) by (simp_all add: moves_mode s0)
  have d: "drag e0 es s = handleMouseMove e ?p" by (simp add: drag_def es)
  have "refs e" using assms(5) es by (simp add: rendered_refs)
  then have "\<forall>a\<in>set (annotations (handleMouseMove e ?p)).
           Some (ann_id a) = selectedId ?p \<longrightarrow> 10 \<le> width a \<and> 10 \<le> height a"
    using mode hitsResizeHandle_truthy [OF assms(3)] by (intro resize_frame) simp_all
  then have frame: "\<forall>a\<in>set (annotations (drag e0 es s)).
            Some (ann_id a) = selectedId s \<longrightarrow> 10 \<le> width a \<and> 10 \<le> height a"
    by (simp add: d mode)
  have "tool (drag e0 es s) = Select" "isDrawing (drag e0 es s)" "dragMode (drag e0 es s) \<noteq> None"
    using mode by (simp_all add: d handleMouseMove_mode)
  then have "annotations (handleMouseUp newId (drag e0 es s)) = annotations (drag e0 es s) \<and>
         last (history (handleMouseUp newId (drag e0 es s))) = annotations (drag e0 es s)"
    by (intro handleMouseUp_commits_drag) simp_all
  then show ?thesis using frame by blast
qed

lemma hits_sel_editor: "hitsResizeHandle (pointer_at 75 55) sel_editor"
  by (simp add: hitsResizeHandle_def sel_editor_def hat_note_def sky_note_def imgPoint_pointer_at Let_def)
     (simp add: pointer_at_def getScale_def)

lemma drag_sel_editor:
  "annotations (drag (pointer_at 75 55) [pointer_at 22 33] sel_editor) =
     [hat_note\<lparr>width := 10, height := 10\<rparr>, sky_note]"
  using hits_sel_editor
  by (simp add: drag_def handleMouseDown_handle pointer_at_def sel_editor_def handleMouseMove_def
      hat_note_def sky_note_def Let_def imgPoint_def getScale_def getRelativePointerPosition_def)

theorem resize_keeps_minimum_witness:
  "tool sel_editor = Select \<and> rendered (pointer_at 75 55) \<and>
   hitsResizeHandle (pointer_at 75 55) sel_editor \<and> rendered (pointer_at 22 33) \<and>
   annotations (drag (pointer_at 75 55) [pointer_at 22 33] sel_editor) =
     [hat_note\<lparr>width := 10, height := 10\<rparr>, sky_note] \<and>
   (10::real) \<le> width (hat_note\<lparr>width := 10, height := 10\<rparr>) \<and>
   annotations (handleMouseUp ''n1'' (drag (pointer_at 75 55) [pointer_at 22 33] sel_editor)) =
     [hat_note\<lparr>width := 10, height := 10\<rparr>, sky_note] \<and>
   last (history (handleMouseUp ''n1'' (drag (pointer_at 75 55) [pointer_at 22 33] sel_editor))) =
     [hat_note\<lparr>width := 10, height := 10\<rparr>, sky_note]"
proof -
  have t: "tool sel_editor = Select" by (simp add: sel_editor_def)
  have n: "[pointer_at 22 33] \<noteq> []" by simp
  have r: "\<forall>e\<in>set [pointer_at 22 33]. rendered e" by (simp add: rendered_pointer_at)
  note th = resize_keeps_minimum [OF t rendered_pointer_at hits_sel_editor n r, where newId = "''n1''"]
  from th have "\<forall>a\<in>set (annotations (drag (pointer_at 75 55) [pointer_at 22 33] sel_editor)).
      Some (ann_id a) = selectedId sel_editor \<longrightarrow> 10 \<le> width a \<and> 10 \<le> height a"
    by blast
  then have w: "(10::real) \<le> width (hat_note\<lparr>width := 10, height := 10\<rparr>)"
    by (simp add: drag_sel_editor)
  show ?thesis
    using th t hits_sel_editor w by (simp add: drag_sel_editor rendered_pointer_at)
qed

section \<open>Compare view: the divider\<close>

text \<open>
  Claim C9. For a container of positive width and every pointer coordinate, \<open>handleMove\<close>
  sets the divider to the clamped offset divided by the container width, times 100, and
  that number lies between 0 and 100.
\<close>

theorem divider_in_range:
  assumes "0 < rect_width rect"
  shows "\<exists>p. position (handleMove cx (Some rect) s) = Some p \<and>
             p = max 0 (min (cx - rect_left rect) (rect_width rect)) / rect_width rect * 100 \<and>
             0 \<le> p \<and> p \<le> 100"
proof -
  let ?w = "rect_width rect"
  let ?px = "max 0 (min (cx - rect_left rect) ?w)"
  define q where "q = ?px / ?w"
  have lo: "0 \<le> ?px" by simp
  have hi: "?px \<le> ?w" using assms by simp
  have q0: "0 \<le> q" unfolding q_def using lo assms by (intro divide_nonneg_pos)
  have q1: "q \<le> 1" unfolding q_def using hi assms by (simp add: divide_le_eq)
  have "position (handleMove cx (Some rect) s) = Some (q * 100)"
    using assms by (simp add: handleMove_def js_divide_def Let_def q_def)
  moreover have "0 \<le> q * 100" using q0 by simp
  moreover have "q * 100 \<le> 100" using q1 by simp
  ultimately show ?thesis unfolding q_def by blast
qed

theorem divider_in_range_witness:
  "0 < rect_width wide_rect \<and>
   position (handleMove 240 (Some wide_rect) initialSlider) = Some 25 \<and>
   position (handleMove 1000 (Some wide_rect) initialSlider) = Some 100 \<and>
   position (handleMove 3 (Some wide_rect) initialSlider) = Some 0"
proof -
  have w: "0 < rect_width wide_rect" by (simp add: wide_rect_def)
  have a: "position (handleMove 240 (Some wide_rect) initialSlider) = Some 25"
    using divider_in_range [OF w, of 240 initialSlider] by (auto simp: wide_rect_def)
  have b: "position (handleMove 1000 (Some wide_rect) initialSlider) = Some 100"
    using divider_in_range [OF w, of 1000 initialSlider] by (auto simp: wide_rect_def)
  have c: "position (handleMove 3 (Some wide_rect) initialSlider) = Some 0"
    using divider_in_range [OF w, of 3 initialSlider] by (auto simp: wide_rect_def)
  show ?thesis using w a b c by simp
qed

text \<open>
  A container of width 0 (one that cannot be hovered) would give \<open>0 / 0\<close>, not a number.
\<close>

lemma handleMove_zero_width:
  "position (handleMove cx (Some \<lparr>rect_left = l, rect_width = 0\<rparr>) s) = None"
  by (simp add: handleMove_def js_divide_def)

section \<open>Edit service: outcome of a call\<close>

lemma firstPartData_contains:
  assumes "firstPartData r = Some d"
  shows "containsImageData r \<and> d \<noteq> []"
proof -
  from assms obtain cs where cs: "candidates r = Some cs"
    by (auto simp: firstPartData_def responseParts_def split: option.splits)
  from assms cs obtain cand rest where c0: "cs = cand # rest"
    by (cases cs) (auto simp: firstPartData_def responseParts_def js_index_def split: option.splits)
  from assms cs c0 obtain ct where ct: "content cand = Some ct"
    by (auto simp: firstPartData_def responseParts_def js_index_def split: option.splits)
  from assms cs c0 ct obtain part ps where ps: "parts ct = Some (part # ps)"
    by (auto simp: firstPartData_def responseParts_def js_index_def split: option.splits list.splits)
  from assms cs c0 ct ps have "partHasImage part \<and> d \<noteq> []"
    by (auto simp: firstPartData_def responseParts_def js_index_def partHasImage_def
        split: option.splits if_splits)
  then show ?thesis using cs c0 ct ps
    by (simp add: containsImageData_def candidateParts_def)
qed

text \<open>
  Claim C8 as stated fails: a response whose first part is text and whose second part
  carries the image contains inline image data, and \<open>editImage\<close> throws
  \<open>No image generated in response.\<close>
\<close>

theorem image_not_first_fails:
  "containsImageData text_then_image \<and>
   editImage ''secret'' (\<lambda>req. Inr text_then_image) ''data:image/png;base64,AAAA'' ''fix it'' ''image/png'' =
     Inl (Thrown (Some ''No image generated in response.''))"
  by (simp add: containsImageData_def text_then_image_def candidateParts_def partHasImage_def
      editImage_def firstPartData_def responseParts_def js_index_def message_or_def)

text \<open>
  Claim C8, amended. \<open>editImage\<close> returns an image exactly when the key is present, the
  remote call answers, and the first part of the first candidate carries non-empty inline
  data; the image is that data behind the PNG data-URL header, and such a response contains
  image data. Without a key the call throws the key error; with a key, a response that
  contains no inline image data throws \<open>No image generated in response.\<close>, and a failing
  remote call throws an error with a non-empty message. The result is either one image or
  one error.
\<close>

theorem editImage_outcome:
  "(editImage key generate base64Image prompt mime = Inr out) =
     (key \<noteq> [] \<and>
      (\<exists>r d. generate (editRequest base64Image prompt mime) = Inr r \<and>
             firstPartData r = Some d \<and> out = ''data:image/png;base64,'' @ d)) \<and>
   (editImage key generate base64Image prompt mime = Inr out \<longrightarrow>
      (\<exists>r. generate (editRequest base64Image prompt mime) = Inr r \<and> containsImageData r)) \<and>
   (key = [] \<longrightarrow>
      editImage key generate base64Image prompt mime =
        Inl (Thrown (Some ''API Key not found. Please set the API_KEY environment variable.''))) \<and>
   (\<forall>r. key \<noteq> [] \<and> generate (editRequest base64Image prompt mime) = Inr r \<and> \<not> containsImageData r \<longrightarrow>
      editImage key generate base64Image prompt mime =
        Inl (Thrown (Some ''No image generated in response.''))) \<and>
   (\<forall>err. key \<noteq> [] \<and> generate (editRequest base64Image prompt mime) = Inl err \<longrightarrow>
      (\<exists>m. editImage key generate base64Image prompt mime = Inl (Thrown (Some m)) \<and> m \<noteq> []))"
proof -
  let ?call = "editImage key generate base64Image prompt mime"
  let ?req = "editRequest base64Image prompt mime"
  have iff: "(?call = Inr out) =
     (key \<noteq> [] \<and> (\<exists>r d. generate ?req = Inr r \<and> firstPartData r = Some d \<and>
                           out = ''data:image/png;base64,'' @ d))"
    by (auto simp: editImage_def Let_def split: sum.splits option.splits)
  have only: "\<exists>r. generate ?req = Inr r \<and> containsImageData r" if "?call = Inr out"
    using that iff firstPartData_contains by blast
  have nokey: "?call = Inl (Thrown (Some ''API Key not found. Please set the API_KEY environment variable.''))"
    if "key = []"
    using that by (simp add: editImage_def)
  have noimg: "?call = Inl (Thrown (Some ''No image generated in response.''))"
    if "key \<noteq> []" and "generate ?req = Inr r" and "\<not> containsImageData r" for r
  proof -
    have "firstPartData r = None"
      using that(3) firstPartData_contains [of r] by (cases "firstPartData r") auto
    then show ?thesis using that(1,2) by (simp add: editImage_def message_or_def)
  qed
  have remote: "\<exists>m. ?call = Inl (Thrown (Some m)) \<and> m \<noteq> []"
    if "key \<noteq> []" and "generate ?req = Inl err" for err
    using that by (simp add: editImage_def message_or_def split: option.splits)
  show ?thesis using iff only nokey noimg remote by blast
qed

theorem editImage_outcome_witness:
  "editImage ''secret'' (\<lambda>req. Inr image_only) ''data:image/png;base64,AAAA'' ''fix it'' ''image/png'' =
     Inr ''data:image/png;base64,iVBORw0KGgo='' \<and>
   containsImageData image_only \<and>
   editImage [] (\<lambda>req. Inr image_only) ''data:image/png;base64,AAAA'' ''fix it'' ''image/png'' =
     Inl (Thrown (Some ''API Key not found. Please set the API_KEY environment variable.'')) \<and>
   \<not> containsImageData no_parts \<and>
   editImage ''secret'' (\<lambda>req. Inr no_parts) ''data:image/png;base64,AAAA'' ''fix it'' ''image/png'' =
     Inl (Thrown (Some ''No image generated in response.'')) \<and>
   editImage ''secret'' (\<lambda>req. Inl (Thrown None)) ''data:image/png;base64,AAAA'' ''fix it'' ''image/png'' =
     Inl (Thrown (Some ''Failed to process image with Gemini.''))"
proof -
  let ?img = "''data:image/png;base64,AAAA''"
  have f: "firstPartData image_only = Some ''iVBORw0KGgo=''"
    by (simp add: firstPartData_def responseParts_def js_index_def image_only_def)
  have a: "editImage ''secret'' (\<lambda>req. Inr image_only) ?img ''fix it'' ''image/png'' =
     Inr ''data:image/png;base64,iVBORw0KGgo=''"
    using editImage_outcome [of "''secret''" "\<lambda>req. Inr image_only" ?img "''fix it''" "''image/png''"
        "''data:image/png;base64,iVBORw0KGgo=''"] f
    by simp
  have c: "containsImageData image_only"
    by (simp add: containsImageData_def image_only_def candidateParts_def partHasImage_def)
  have k: "editImage [] (\<lambda>req. Inr image_only) ?img ''fix it'' ''image/png'' =
     Inl (Thrown (Some ''API Key not found. Please set the API_KEY environment variable.''))"
    using editImage_outcome [of "[]" "\<lambda>req. Inr image_only" ?img "''fix it''" "''image/png''" "[]"]
    by blast
  have n: "\<not> containsImageData no_parts"
    by (simp add: containsImageData_def no_parts_def candidateParts_def)
  have e: "editImage ''secret'' (\<lambda>req. Inr no_parts) ?img ''fix it'' ''image/png'' =
     Inl (Thrown (Some ''No image generated in response.''))"
    using editImage_outcome [of "''secret''" "\<lambda>req. Inr no_parts" ?img "''fix it''" "''image/png''" "[]"] n
    by simp
  have r: "editImage ''secret'' (\<lambda>req. Inl (Thrown None)) ?img ''fix it'' ''image/png'' =
     Inl (Thrown (Some ''Failed to process image with Gemini.''))"
    by (simp add: editImage_def message_or_def)
  show ?thesis using a c k n e r by simp
qed

section \<open>Generation: the instruction sent\<close>
















section \<open>Flattening: pixel dimensions\<close>

lemma drawAnnotation_size:
  "canvasWidth (drawAnnotation env img ctx ann) = canvasWidth ctx \<and>
   canvasHeight (drawAnnotation env img ctx ann) = canvasHeight ctx"
  by (simp add: drawAnnotation_def Let_def)

lemma draw_all_size:
  "canvasWidth (foldl (drawAnnotation env img) ctx anns) = canvasWidth ctx \<and>
   canvasHeight (foldl (drawAnnotation env img) ctx anns) = canvasHeight ctx"
  by (induction anns arbitrary: ctx) (simp_all add: drawAnnotation_size)

text \<open>
  Claim C7. When the source image loads and a 2D context is available, flattening succeeds
  for every annotation list, and the canvas it encodes has the natural width and height of
  the source image.
\<close>

theorem flatten_keeps_size:
  assumes "loadImage env src = Inr img" and "hasContext env"
  shows "\<exists>canvas. flattenCanvas env src anns = Inr canvas \<and>
           canvasWidth canvas = naturalWidth img \<and>
           canvasHeight canvas = naturalHeight img \<and>
           flattenAnnotations env src anns mime = Inr (toDataURL env mime canvas)"
  using assms by (simp add: flattenAnnotations_def flattenCanvas_def Let_def draw_all_size)

theorem flatten_keeps_size_witness:
  "loadImage demo_env ''data:image/png;base64,AAAA'' = Inr photo \<and> hasContext demo_env \<and>
   (\<exists>canvas. flattenCanvas demo_env ''data:image/png;base64,AAAA'' [hat_note] = Inr canvas \<and>
      canvasWidth canvas = 500 \<and> canvasHeight canvas = 400 \<and>
      flattenAnnotations demo_env ''data:image/png;base64,AAAA'' [hat_note] ''image/png'' =
        Inr ''data:image/png;base64,RkxBVA=='')"
proof -
  have l: "loadImage demo_env ''data:image/png;base64,AAAA'' = Inr photo" by (simp add: demo_env_def)
  have h: "hasContext demo_env" by (simp add: demo_env_def)
  have e: "toDataURL demo_env ''image/png'' canvas = ''data:image/png;base64,RkxBVA==''" for canvas
    by (simp add: demo_env_def)
  show ?thesis
    using flatten_keeps_size [OF l h, of "[hat_note]" "''image/png''"] l h
    by (auto simp: e photo_def)
qed

text \<open>
  The specification's example: one red annotation at (10,10) of size 100 by 40 with the note
  \<open>remove hat\<close> on a 500-wide image gives the image, the red box and the note wrapped
  on two lines inside it.
\<close>

lemma flatten_example_calls:
  "map_sum id calls (flattenCanvas demo_env ''data:image/png;base64,AAAA'' [hat_note]) =
     Inr [DrawImage photo 0 0,
          StrokeRect ''#FF3B30'' 3 10 10 100 40,
          FillText ''bold 16px Inter, sans-serif'' ''#FF3B30'' ''top'' ''remove '' 15 15,
          FillText ''bold 16px Inter, sans-serif'' ''#FF3B30'' ''top'' ''hat '' 15 (171 / 5)]"
  by (simp add: flattenCanvas_def demo_env_def photo_def drawAnnotation_def hat_note_def Let_def
      createCanvas_def STROKE_WIDTH_def)

end
